theory Spec2Isabelle
  imports Main "HOL-Library.AList"
begin

section \<open>Python values, errors and the operations the script applies to them\<close>

text \<open>
  The configuration handed to \<^verbatim>\<open>interfaces-openvpn.py\<close> is a Python dictionary built by
  the configuration loader: leaf values are strings, multi-valued leaves are lists of
  strings, tag nodes and valueless nodes are dictionaries. The generator stores
  \<^verbatim>\<open>True\<close> under two keys, and lookups yield \<^verbatim>\<open>None\<close>. A dictionary is an association
  list: Python dictionaries keep insertion order, and the script iterates over them.
\<close>

datatype pyval =
    PNone
  | PBool bool
  | PStr string
  | PList "string list"
  | PDict "(string \<times> pyval) list"

type_synonym dict = "(string \<times> pyval) list"

text \<open>
  \<^verbatim>\<open>ConfigError\<close> is the user-facing rejection; it carries the message as the source
  writes it, with the values an f-string or \<^verbatim>\<open>format\<close> would interpolate listed beside
  it. The other constructors are the Python exceptions the script does not catch.
\<close>

datatype error =
    ConfigError string "pyval list"
  | KeyError string
  | TypeError
  | ValueError
  | IndexError
  | AttributeError
  | OSError

definition ebind :: "error + 'a \<Rightarrow> ('a \<Rightarrow> error + 'b) \<Rightarrow> error + 'b" where
  "ebind m f = (case m of Inl e \<Rightarrow> Inl e | Inr x \<Rightarrow> f x)"

definition raise_if :: "bool \<Rightarrow> error \<Rightarrow> error + unit" where
  "raise_if b e = (if b then Inl e else Inr ())"

text \<open>A block of statements: the first one that raises ends the block.\<close>

fun checks :: "(error + unit) list \<Rightarrow> error + unit" where
  "checks [] = Inr ()"
| "checks (Inl e # _) = Inl e"
| "checks (Inr _ # ms) = checks ms"

text \<open>A \<^verbatim>\<open>for\<close> loop whose body only raises or passes.\<close>

definition for_each :: "'a list \<Rightarrow> ('a \<Rightarrow> error + unit) \<Rightarrow> error + unit" where
  "for_each xs body = checks (map body xs)"

fun truthy :: "pyval \<Rightarrow> bool" where
  "truthy PNone = False"
| "truthy (PBool b) = b"
| "truthy (PStr s) = (s \<noteq> [])"
| "truthy (PList xs) = (xs \<noteq> [])"
| "truthy (PDict kvs) = (kvs \<noteq> [])"

definition has_key :: "string \<Rightarrow> dict \<Rightarrow> bool" where
  "has_key k d = (map_of d k \<noteq> None)"

text \<open>\<^verbatim>\<open>d[k]\<close> on a dictionary.\<close>

definition item :: "dict \<Rightarrow> string \<Rightarrow> error + pyval" where
  "item d k = (case map_of d k of None \<Rightarrow> Inl (KeyError k) | Some v \<Rightarrow> Inr v)"

fun starts_with :: "string \<Rightarrow> string \<Rightarrow> bool" where
  "starts_with [] s = True"
| "starts_with (p # ps) [] = False"
| "starts_with (p # ps) (c # cs) = (p = c \<and> starts_with ps cs)"

fun contains :: "string \<Rightarrow> string \<Rightarrow> bool" where
  "contains p [] = (p = [])"
| "contains p (c # cs) = (starts_with p (c # cs) \<or> contains p cs)"

text \<open>\<^verbatim>\<open>x in c\<close>: key membership in a dictionary, element membership in a list, substring
  test in a string; unhashable keys and containers that are not iterable raise.\<close>

fun py_in :: "pyval \<Rightarrow> pyval \<Rightarrow> error + bool" where
  "py_in (PStr k) (PDict d) = Inr (has_key k d)"
| "py_in (PList _) (PDict d) = Inl TypeError"
| "py_in (PDict _) (PDict d) = Inl TypeError"
| "py_in _ (PDict d) = Inr False"
| "py_in (PStr s) (PList xs) = Inr (s \<in> set xs)"
| "py_in _ (PList xs) = Inr False"
| "py_in (PStr t) (PStr s) = Inr (contains t s)"
| "py_in _ (PStr s) = Inl TypeError"
| "py_in _ PNone = Inl TypeError"
| "py_in _ (PBool _) = Inl TypeError"

definition nth_or_raise :: "'a list \<Rightarrow> nat \<Rightarrow> error + 'a" where
  "nth_or_raise xs i = (if i < length xs then Inr (xs ! i) else Inl IndexError)"

text \<open>\<^verbatim>\<open>c[x]\<close>: a dictionary is read by key; a string or a list is indexed by an integer
  (\<^verbatim>\<open>bool\<close> is a subclass of \<^verbatim>\<open>int\<close>) and raises \<^verbatim>\<open>TypeError\<close> on any other key.\<close>

fun py_getitem :: "pyval \<Rightarrow> pyval \<Rightarrow> error + pyval" where
  "py_getitem (PDict d) (PStr k) = item d k"
| "py_getitem (PDict d) PNone = Inl (KeyError ''None'')"
| "py_getitem (PDict d) (PBool b) = Inl (KeyError (if b then ''True'' else ''False''))"
| "py_getitem (PDict d) _ = Inl TypeError"
| "py_getitem (PStr s) (PBool b) =
     (case nth_or_raise s (if b then 1 else 0) of Inl e \<Rightarrow> Inl e | Inr c \<Rightarrow> Inr (PStr [c]))"
| "py_getitem (PList xs) (PBool b) =
     (case nth_or_raise xs (if b then 1 else 0) of Inl e \<Rightarrow> Inl e | Inr x \<Rightarrow> Inr (PStr x))"
| "py_getitem _ _ = Inl TypeError"

text \<open>\<^verbatim>\<open>c[0]\<close>.\<close>

fun py_index0 :: "pyval \<Rightarrow> error + pyval" where
  "py_index0 (PStr s) = (case s of [] \<Rightarrow> Inl IndexError | c # _ \<Rightarrow> Inr (PStr [c]))"
| "py_index0 (PList xs) = (case xs of [] \<Rightarrow> Inl IndexError | x # _ \<Rightarrow> Inr (PStr x))"
| "py_index0 (PDict d) = Inl (KeyError ''0'')"
| "py_index0 _ = Inl TypeError"

text \<open>Iteration: a dictionary yields its keys, a string its characters.\<close>

fun py_iter :: "pyval \<Rightarrow> error + string list" where
  "py_iter (PDict d) = Inr (map fst d)"
| "py_iter (PList xs) = Inr xs"
| "py_iter (PStr s) = Inr (map (\<lambda>c. [c]) s)"
| "py_iter _ = Inl TypeError"

fun py_len :: "pyval \<Rightarrow> error + nat" where
  "py_len (PDict d) = Inr (length d)"
| "py_len (PList xs) = Inr (length xs)"
| "py_len (PStr s) = Inr (length s)"
| "py_len _ = Inl TypeError"

text \<open>\<^verbatim>\<open>x or []\<close>.\<close>

definition or_empty :: "pyval \<Rightarrow> pyval" where
  "or_empty v = (if truthy v then v else PList [])"

text \<open>\<^verbatim>\<open>hasattr(x, '__iter__')\<close>.\<close>

fun has_iter :: "pyval \<Rightarrow> bool" where
  "has_iter (PDict _) = True"
| "has_iter (PList _) = True"
| "has_iter (PStr _) = True"
| "has_iter _ = False"

text \<open>\<^verbatim>\<open>x.items()\<close> and \<^verbatim>\<open>x.get(k)\<close> exist on dictionaries only.\<close>

fun py_items :: "pyval \<Rightarrow> error + (string \<times> pyval) list" where
  "py_items (PDict d) = Inr d"
| "py_items _ = Inl AttributeError"

fun py_get :: "pyval \<Rightarrow> string \<Rightarrow> error + pyval" where
  "py_get (PDict d) k = Inr (case map_of d k of None \<Rightarrow> PNone | Some v \<Rightarrow> v)"
| "py_get _ k = Inl AttributeError"

subsection \<open>Dictionary search helpers\<close>

text \<open>
  Modelled from the spec: \<^verbatim>\<open>vyos.util.dict_search_args\<close> and \<^verbatim>\<open>vyos.util.dict_search\<close>,
  which the script imports and the sources at hand do not include. The specification reads
  their results as optional fields of the record, so they are the lookups their callers
  rely on: the value found by following the keys through nested dictionaries, and
  \<^verbatim>\<open>None\<close> as soon as a key is absent or the value reached is not a dictionary.
  \<^verbatim>\<open>dict_search\<close> takes the keys as one string separated by dots.
\<close>

fun dict_search_args :: "pyval \<Rightarrow> pyval list \<Rightarrow> pyval" where
  "dict_search_args v [] = v"
| "dict_search_args (PDict d) (PStr k # ks) =
     (case map_of d k of None \<Rightarrow> PNone | Some v \<Rightarrow> dict_search_args v ks)"
| "dict_search_args _ (k # ks) = PNone"

fun split_dots :: "string \<Rightarrow> string \<Rightarrow> string list" where
  "split_dots acc [] = [rev acc]"
| "split_dots acc (c # cs) =
     (if c = CHR ''.'' then rev acc # split_dots [] cs else split_dots (c # acc) cs)"

definition dict_search :: "string \<Rightarrow> dict \<Rightarrow> pyval" where
  "dict_search path d = dict_search_args (PDict d) (map PStr (split_dots [] path))"

subsection \<open>The \<^verbatim>\<open>ipaddress\<close> module, IPv4 part\<close>

definition digit_of :: "char \<Rightarrow> int option" where
  "digit_of c = (let n = (of_char c :: int)
                 in if 48 \<le> n \<and> n \<le> 57 then Some (n - 48) else None)"

fun decimal_acc :: "int \<Rightarrow> string \<Rightarrow> int option" where
  "decimal_acc n [] = Some n"
| "decimal_acc n (c # cs) =
     (case digit_of c of None \<Rightarrow> None | Some d \<Rightarrow> decimal_acc (10 * n + d) cs)"

text \<open>A non-empty string of ASCII digits, read in base ten.\<close>

definition decimal :: "string \<Rightarrow> int option" where
  "decimal s = (if s = [] then None else decimal_acc 0 s)"

fun split_on :: "char \<Rightarrow> string \<Rightarrow> string \<Rightarrow> string list" where
  "split_on sep acc [] = [rev acc]"
| "split_on sep acc (c # cs) =
     (if c = sep then rev acc # split_on sep [] cs else split_on sep (c # acc) cs)"

text \<open>One octet of a dotted quad: one to three digits, no leading zero, at most 255.\<close>

definition parse_octet :: "string \<Rightarrow> int option" where
  "parse_octet s =
     (case decimal s of
        None \<Rightarrow> None
      | Some n \<Rightarrow> if length s > 3 \<or> (s \<noteq> ''0'' \<and> hd s = CHR ''0'') \<or> n > 255
                  then None else Some n)"

definition ip_int_from_string :: "string \<Rightarrow> int option" where
  "ip_int_from_string s =
     (case map parse_octet (split_on (CHR ''.'') [] s) of
        [Some a, Some b, Some c, Some d] \<Rightarrow> Some (((a * 256 + b) * 256 + c) * 256 + d)
      | _ \<Rightarrow> None)"

text \<open>\<^verbatim>\<open>int(IPv4Address(x))\<close>: a string is parsed, a \<^verbatim>\<open>bool\<close> is an integer address, any
  other value is converted with \<^verbatim>\<open>str\<close> to text that is no dotted quad.\<close>

fun IPv4Address :: "pyval \<Rightarrow> error + int" where
  "IPv4Address (PStr s) = (case ip_int_from_string s of None \<Rightarrow> Inl ValueError | Some n \<Rightarrow> Inr n)"
| "IPv4Address (PBool b) = Inr (if b then 1 else 0)"
| "IPv4Address _ = Inl ValueError"

text \<open>The prefix length of a mask written as a dotted quad: a netmask first, then a
  hostmask.\<close>

definition prefix_from_ip_int :: "int \<Rightarrow> nat option" where
  "prefix_from_ip_int m =
     (case find (\<lambda>p. 2 ^ 32 - 2 ^ (32 - p) = m) [0 ..< 33] of
        Some p \<Rightarrow> Some p
      | None \<Rightarrow> find (\<lambda>p. 2 ^ (32 - p) - 1 = m) [0 ..< 33])"

definition make_netmask :: "string \<Rightarrow> nat option" where
  "make_netmask s =
     (case decimal s of
        Some p \<Rightarrow> if p \<le> 32 then Some (nat p)
                  else (case ip_int_from_string s of None \<Rightarrow> None | Some m \<Rightarrow> prefix_from_ip_int m)
      | None \<Rightarrow> (case ip_int_from_string s of None \<Rightarrow> None | Some m \<Rightarrow> prefix_from_ip_int m))"

text \<open>\<^verbatim>\<open>IPv4Network(s)\<close> with the default \<^verbatim>\<open>strict=True\<close>: the network address and the
  prefix length; host bits set below the prefix raise.\<close>

definition IPv4Network :: "string \<Rightarrow> error + (int \<times> nat)" where
  "IPv4Network s =
     (case split_on (CHR ''/'') [] s of
        [a] \<Rightarrow> (case ip_int_from_string a of None \<Rightarrow> Inl ValueError | Some n \<Rightarrow> Inr (n, 32))
      | [a, m] \<Rightarrow>
          (case ip_int_from_string a of
             None \<Rightarrow> Inl ValueError
           | Some n \<Rightarrow>
               (case make_netmask m of
                  None \<Rightarrow> Inl ValueError
                | Some p \<Rightarrow> if n mod 2 ^ (32 - p) \<noteq> 0 then Inl ValueError else Inr (n, p)))
      | _ \<Rightarrow> Inl ValueError)"

text \<open>\<^verbatim>\<open>address in network\<close>.\<close>

definition in_network :: "int \<Rightarrow> int \<times> nat \<Rightarrow> bool" where
  "in_network a net = (a div 2 ^ (32 - snd net) = fst net div 2 ^ (32 - snd net))"


subsection \<open>Conditions that may raise\<close>

definition eand :: "error + bool \<Rightarrow> error + bool \<Rightarrow> error + bool" where
  "eand a b = ebind a (\<lambda>x. if x then b else Inr False)"

definition eor :: "error + bool \<Rightarrow> error + bool \<Rightarrow> error + bool" where
  "eor a b = ebind a (\<lambda>x. if x then Inr True else b)"

definition enot :: "error + bool \<Rightarrow> error + bool" where
  "enot a = ebind a (\<lambda>x. Inr (\<not> x))"

definition etruthy :: "error + pyval \<Rightarrow> error + bool" where
  "etruthy a = ebind a (\<lambda>v. Inr (truthy v))"

definition raise_when :: "error + bool \<Rightarrow> error \<Rightarrow> error + unit" where
  "raise_when c e = ebind c (\<lambda>b. raise_if b e)"

text \<open>\<^verbatim>\<open>v[k1][k2]...\<close>.\<close>

fun getpath :: "pyval \<Rightarrow> string list \<Rightarrow> error + pyval" where
  "getpath v [] = Inr v"
| "getpath v (k # ks) = ebind (py_getitem v (PStr k)) (\<lambda>x. getpath x ks)"

section \<open>What the script takes from its environment\<close>

text \<open>
  The helpers the script imports from the rest of the system are parameters of the model:
  the address-family tests of \<^verbatim>\<open>vyos.template\<close>, \<^verbatim>\<open>is_addr_assigned\<close>, the verifiers of
  \<^verbatim>\<open>vyos.configverify\<close>, the key loaders and wrappers of \<^verbatim>\<open>vyos.pki\<close>, the template
  renderer and the interface object. \<open>key_is_ec k\<close> stands for
  \<^verbatim>\<open>isinstance(load_private_key(k), ec.EllipticCurvePrivateKey)\<close> and \<open>dh_bit_length p\<close> for
  \<^verbatim>\<open>load_dh_parameters(p).parameter_numbers().p.bit_length()\<close>. \<open>py_int\<close> is Python's
  \<^verbatim>\<open>int\<close> on a string (\<open>None\<close> where it raises) and \<open>py_repr\<close> the text Python prints for a
  list or a dictionary.
\<close>

record env =
  is_ipv4 :: "string \<Rightarrow> bool"
  is_ipv6 :: "string \<Rightarrow> bool"
  is_addr_assigned :: "pyval \<Rightarrow> bool"
  verify_vrf :: "dict \<Rightarrow> error + unit"
  verify_bridge_delete :: "dict \<Rightarrow> error + unit"
  key_is_ec :: "pyval \<Rightarrow> bool"
  dh_bit_length :: "pyval \<Rightarrow> error + nat"
  py_int :: "string \<Rightarrow> int option"
  py_repr :: "pyval \<Rightarrow> string"
  wrap_openvpn_key :: "pyval \<Rightarrow> string"
  wrap_certificate :: "pyval \<Rightarrow> string"
  wrap_crl :: "string \<Rightarrow> string"
  wrap_private_key :: "pyval \<Rightarrow> string"
  wrap_dh_parameters :: "pyval \<Rightarrow> string"
  render_template :: "string \<Rightarrow> pyval \<Rightarrow> string"

text \<open>\<^verbatim>\<open>str(v)\<close>, as an f-string or \<^verbatim>\<open>format\<close> interpolates a value.\<close>

definition py_str :: "env \<Rightarrow> pyval \<Rightarrow> string" where
  "py_str E v =
     (case v of
        PStr s \<Rightarrow> s
      | PNone \<Rightarrow> ''None''
      | PBool b \<Rightarrow> (if b then ''True'' else ''False'')
      | _ \<Rightarrow> py_repr E v)"

section \<open>PKI bindings: \<^verbatim>\<open>is_ec_private_key\<close> and \<^verbatim>\<open>verify_pki\<close>\<close>

definition is_ec_private_key :: "env \<Rightarrow> pyval \<Rightarrow> pyval \<Rightarrow> error + bool" where
  "is_ec_private_key E pki cert_name =
     (if \<not> truthy pki then Inr False
      else ebind (py_in (PStr ''certificate'') pki) (\<lambda>b.
        if \<not> b then Inr False
        else ebind (py_getitem pki (PStr ''certificate'')) (\<lambda>certs.
          ebind (py_in cert_name certs) (\<lambda>b.
            if \<not> b then Inr False
            else ebind (py_getitem certs cert_name) (\<lambda>pki_cert.
              ebind (eor (enot (py_in (PStr ''private'') pki_cert))
                         (enot (ebind (py_getitem pki_cert (PStr ''private''))
                                      (py_in (PStr ''key''))))) (\<lambda>b.
                if b then Inr False
                else ebind (getpath pki_cert [''private'', ''key''])
                           (\<lambda>key. Inr (key_is_ec E key))))))))"

definition verify_pki_shared :: "pyval \<Rightarrow> pyval \<Rightarrow> pyval \<Rightarrow> error + unit" where
  \<open>verify_pki_shared pki interface shared_secret_key = checks [
     raise_if (\<not> truthy (dict_search_args pki [PStr ''openvpn'', PStr ''shared_secret'']))
       (ConfigError ''There are no openvpn shared-secrets in PKI configuration'' []),
     raise_when (enot (ebind (getpath pki [''openvpn'', ''shared_secret''])
                             (py_in shared_secret_key)))
       (ConfigError ''Invalid shared-secret on openvpn interface {interface}'' [interface])]\<close>

definition verify_pki_certificate :: "env \<Rightarrow> pyval \<Rightarrow> pyval \<Rightarrow> pyval \<Rightarrow> pyval \<Rightarrow> error + unit" where
  \<open>verify_pki_certificate E pki interface mode tls =
     ebind (py_getitem tls (PStr ''certificate'')) (\<lambda>cert. checks [
       raise_when (enot (ebind (py_getitem pki (PStr ''certificate'')) (py_in cert)))
         (ConfigError ''Invalid certificate on openvpn interface {interface}'' [interface]),
       raise_if (truthy (dict_search_args pki
                   [PStr ''certificate'', cert, PStr ''private'', PStr ''password_protected'']))
         (ConfigError ''Cannot use encrypted private key on openvpn interface {interface}''
            [interface]),
       raise_when (eand (Inr (mode = PStr ''server''))
                    (eand (enot (py_in (PStr ''dh_params'') tls))
                          (enot (is_ec_private_key E pki cert))))
         (ConfigError ''Must specify "tls dh-params" when not using EC keys in server mode'' [])])\<close>

definition verify_pki_dh :: "env \<Rightarrow> pyval \<Rightarrow> pyval \<Rightarrow> pyval \<Rightarrow> error + unit" where
  \<open>verify_pki_dh E pki interface tls = checks [
     raise_when (enot (py_in (PStr ''dh'') pki))
       (ConfigError ''There are no DH parameters in PKI configuration'' []),
     ebind (py_getitem tls (PStr ''dh_params'')) (\<lambda>name. checks [
       raise_when (enot (ebind (py_getitem pki (PStr ''dh'')) (py_in name)))
         (ConfigError ''Invalid dh-params on openvpn interface {interface}'' [interface]),
       ebind (py_getitem pki (PStr ''dh'')) (\<lambda>dhs.
       ebind (py_getitem dhs name) (\<lambda>pki_dh.
       ebind (py_getitem pki_dh (PStr ''parameters'')) (\<lambda>params.
       ebind (dh_bit_length E params) (\<lambda>dh_bits.
         raise_if (dh_bits < 2048) (ConfigError ''Minimum DH key-size is 2048 bits'' [])))))])]\<close>

definition verify_pki_tls :: "env \<Rightarrow> pyval \<Rightarrow> pyval \<Rightarrow> pyval \<Rightarrow> pyval \<Rightarrow> error + unit" where
  \<open>verify_pki_tls E pki interface mode tls = checks [
     raise_when (enot (py_in (PStr ''ca_certificate'') tls))
       (ConfigError ''Must specify "tls ca-certificate" on openvpn interface {interface}''
          [interface]),
     raise_when (enot (ebind (py_getitem tls (PStr ''ca_certificate'')) (\<lambda>ca.
                       ebind (py_getitem pki (PStr ''ca'')) (py_in ca))))
       (ConfigError ''Invalid CA certificate on openvpn interface {interface}'' [interface]),
     ebind (enot (eand (Inr (mode = PStr ''client'')) (py_in (PStr ''auth_key'') tls))) (\<lambda>b.
       if b then raise_when (enot (py_in (PStr ''certificate'') tls))
                   (ConfigError ''Missing "tls certificate" on openvpn interface {interface}''
                      [interface])
       else Inr ()),
     ebind (py_in (PStr ''certificate'') tls) (\<lambda>b.
       if b then verify_pki_certificate E pki interface mode tls else Inr ()),
     ebind (py_in (PStr ''dh_params'') tls) (\<lambda>b.
       if b then verify_pki_dh E pki interface tls else Inr ()),
     ebind (eor (py_in (PStr ''auth_key'') tls) (py_in (PStr ''crypt_key'') tls)) (\<lambda>b.
       if b then raise_if (\<not> truthy (dict_search_args pki
                                       [PStr ''openvpn'', PStr ''shared_secret'']))
                   (ConfigError ''There are no openvpn shared-secrets in PKI configuration'' [])
       else Inr ()),
     ebind (py_in (PStr ''auth_key'') tls) (\<lambda>b.
       if b then raise_when (enot (ebind (py_getitem tls (PStr ''auth_key'')) (\<lambda>k.
                                   ebind (getpath pki [''openvpn'', ''shared_secret''])
                                         (py_in k))))
                   (ConfigError ''Invalid auth-key on openvpn interface {interface}'' [interface])
       else Inr ()),
     ebind (py_in (PStr ''crypt_key'') tls) (\<lambda>b.
       if b then raise_when (enot (ebind (py_getitem tls (PStr ''crypt_key'')) (\<lambda>k.
                                   ebind (getpath pki [''openvpn'', ''shared_secret''])
                                         (py_in k))))
                   (ConfigError ''Invalid crypt-key on openvpn interface {interface}'' [interface])
       else Inr ())]\<close>

definition verify_pki :: "env \<Rightarrow> dict \<Rightarrow> error + unit" where
  \<open>verify_pki E openvpn =
     ebind (item openvpn ''pki'') (\<lambda>pki.
     ebind (item openvpn ''ifname'') (\<lambda>interface.
     ebind (item openvpn ''mode'') (\<lambda>mode.
       let shared_secret_key = dict_search_args (PDict openvpn) [PStr ''shared_secret_key''];
           tls = dict_search_args (PDict openvpn) [PStr ''tls'']
       in checks [
         raise_if (\<not> (truthy shared_secret_key \<noteq> truthy tls))
           (ConfigError ''Must specify only one of "shared-secret-key" and "tls"'' []),
         raise_if (mode \<in> set [PStr ''server'', PStr ''client''] \<and> \<not> truthy tls)
           (ConfigError ''Must specify "tls" for server and client modes'' []),
         raise_if (\<not> truthy pki) (ConfigError ''PKI is not configured'' []),
         (if truthy shared_secret_key then verify_pki_shared pki interface shared_secret_key
          else Inr ()),
         (if truthy tls then verify_pki_tls E pki interface mode tls else Inr ())])))\<close>

section \<open>The world outside the configuration\<close>

text \<open>
  The files (as text, path to content), directories, ownerships and permission bits the
  script touches, the service units that are running and the network interfaces that
  exist.
\<close>

record world =
  files :: "(string \<times> string) list"
  dirs :: "string list"
  owners :: "(string \<times> string \<times> string) list"
  perms :: "(string \<times> nat) list"
  services :: "string list"
  netifs :: "string list"

definition is_file :: "world \<Rightarrow> string \<Rightarrow> bool" where
  "is_file w p = (map_of (files w) p \<noteq> None)"

definition is_dir :: "world \<Rightarrow> string \<Rightarrow> bool" where
  "is_dir w p = (p \<in> set (dirs w))"

definition write_file :: "string \<Rightarrow> string \<Rightarrow> world \<Rightarrow> world" where
  "write_file p text w = w\<lparr>files := AList.update p text (files w)\<rparr>"

definition unlink :: "string \<Rightarrow> world \<Rightarrow> world" where
  "unlink p w = w\<lparr>files := AList.delete p (files w)\<rparr>"

text \<open>Modelled from the spec: \<^verbatim>\<open>vyos.util.chown\<close> and \<^verbatim>\<open>vyos.util.chmod_600\<close>, which the
  sources at hand do not include; they record the owner and the permission bits of a
  path.\<close>

definition chown :: "string \<Rightarrow> string \<Rightarrow> string \<Rightarrow> world \<Rightarrow> world" where
  "chown p u g w = w\<lparr>owners := AList.update p (u, g) (owners w)\<rparr>"


text \<open>The path itself and every proper prefix of it that ends before a slash.\<close>

definition dir_prefixes :: "string \<Rightarrow> string list" where
  "dir_prefixes p = [take i p. i \<leftarrow> [1 ..< length p], p ! i = CHR ''/''] @ [p]"

text \<open>\<^verbatim>\<open>Path(p).mkdir(parents=True, exist_ok=True)\<close>: fails where the path or one of its
  parents is a regular file.\<close>

definition mkdir_parents :: "string \<Rightarrow> world \<Rightarrow> error + world" where
  "mkdir_parents p w =
     (if list_ex (is_file w) (dir_prefixes p) then Inl OSError
      else Inr (w\<lparr>dirs := dirs w @ filter (\<lambda>d. d \<notin> set (dirs w)) (dir_prefixes p)\<rparr>))"

text \<open>\<^verbatim>\<open>Path(p).touch()\<close>: creates an empty file unless the path exists.\<close>

definition touch :: "string \<Rightarrow> world \<Rightarrow> world" where
  "touch p w = (if is_file w p \<or> is_dir w p then w else write_file p [] w)"

definition user :: string where "user = ''openvpn''"
definition group :: string where "group = ''openvpn''"
definition otp_path :: string where "otp_path = ''/config/auth/openvpn''"
definition secret_chars :: string where "secret_chars = ''ABCDEFGHIJKLMNOPQRSTUVWXYZ234567''"


definition otp_file :: "env \<Rightarrow> dict \<Rightarrow> error + string" where
  "otp_file E openvpn =
     ebind (item openvpn ''ifname'')
       (\<lambda>n. Inr (''/config/auth/openvpn/'' @ py_str E n @ ''-otp-secrets''))"

section \<open>Validation: \<^verbatim>\<open>verify\<close>\<close>

subsection \<open>Client mode\<close>

definition verify_client :: "dict \<Rightarrow> error + unit" where
  \<open>verify_client openvpn = checks [
     raise_if (has_key ''local_port'' openvpn)
       (ConfigError ''Cannot specify "local-port" in client mode'' []),
     raise_if (has_key ''local_host'' openvpn)
       (ConfigError ''Cannot specify "local-host" in client mode'' []),
     raise_if (\<not> has_key ''remote_host'' openvpn)
       (ConfigError ''Must specify "remote-host" in client mode'' []),
     ebind (item openvpn ''protocol'') (\<lambda>p.
       raise_if (p = PStr ''tcp-passive'')
         (ConfigError ''Protocol "tcp-passive" is not valid in client mode'' [])),
     raise_if (truthy (dict_search ''tls.dh_params'' openvpn))
       (ConfigError ''Cannot specify "tls dh-params" in client mode'' [])]\<close>

subsection \<open>Site-to-site mode\<close>

text \<open>The body of \<^verbatim>\<open>if 'remote_address' in openvpn\<close>.\<close>

definition verify_site_remote :: "env \<Rightarrow> dict \<Rightarrow> error + unit" where
  \<open>verify_site_remote E openvpn = checks [
     ebind (ebind (item openvpn ''remote_address'') py_iter) (\<lambda>rem.
       raise_if (length (filter (is_ipv4 E) rem) > 1)
         (ConfigError ''Only one IPv4 remote-address can be specified'' [])),
     ebind (ebind (item openvpn ''remote_address'') py_iter) (\<lambda>rem.
       raise_if (length (filter (is_ipv6 E) rem) > 1)
         (ConfigError ''Only one IPv6 remote-address can be specified'' [])),
     raise_if (\<not> has_key ''local_address'' openvpn)
       (ConfigError ''"remote-address" requires "local-address"'' []),
     ebind (ebind (item openvpn ''local_address'') py_iter) (\<lambda>lo.
     ebind (ebind (item openvpn ''remote_address'') py_iter) (\<lambda>rem.
       let v4loAddr = filter (is_ipv4 E) lo;
           v4remAddr = filter (is_ipv4 E) rem;
           v6remAddr = filter (is_ipv6 E) rem;
           v6loAddr = filter (is_ipv6 E) lo
       in checks [
         (if v4loAddr \<noteq> [] \<and> v4remAddr = []
          then Inl (ConfigError ''IPv4 "local-address" requires IPv4 "remote-address"'' [])
          else raise_if (v4remAddr \<noteq> [] \<and> v4loAddr = [])
                 (ConfigError ''IPv4 "remote-address" requires IPv4 "local-address"'' [])),
         (if v6loAddr \<noteq> [] \<and> v6remAddr = []
          then Inl (ConfigError ''IPv6 "local-address" requires IPv6 "remote-address"'' [])
          else raise_if (v6remAddr \<noteq> [] \<and> v6loAddr = [])
                 (ConfigError ''IPv6 "remote-address" requires IPv6 "local-address"'' [])),
         raise_if (v4loAddr = v4remAddr \<or> v6remAddr = v4remAddr)
           (ConfigError ''"local-address" and "remote-address" cannot be the same'' []),
         raise_when (py_in (dict_search ''local_host'' openvpn)
                           (dict_search ''local_address'' openvpn))
           (ConfigError ''"local-address" cannot be the same as "local-host"'' []),
         raise_when (py_in (dict_search ''remote_host'' openvpn)
                           (dict_search ''remote_address'' openvpn))
           (ConfigError ''"remote-address" and "remote-host" can not be the same'' [])]))]\<close>

text \<open>The body of \<^verbatim>\<open>if openvpn['device_type'] == 'tap'\<close>.\<close>

definition verify_site_tap :: "env \<Rightarrow> dict \<Rightarrow> error + unit" where
  \<open>verify_site_tap E openvpn =
     ebind (ebind (item openvpn ''local_address'') py_iter) (\<lambda>addrs.
       let v4addr = (case find (is_ipv4 E) addrs of None \<Rightarrow> PNone | Some laddr \<Rightarrow> PStr laddr)
       in ebind (item openvpn ''local_address'') (\<lambda>la.
            raise_when (eand (py_in v4addr la)
                             (enot (ebind (py_getitem la v4addr) (py_in (PStr ''subnet_mask'')))))
              (ConfigError ''Must specify IPv4 "subnet-mask" for local-address'' [])))\<close>

definition verify_site_to_site :: "env \<Rightarrow> dict \<Rightarrow> error + unit" where
  \<open>verify_site_to_site E openvpn = checks [
     raise_if (\<not> has_key ''local_address'' openvpn \<and> \<not> has_key ''is_bridge_member'' openvpn)
       (ConfigError ''Must specify "local-address" or add interface to bridge'' []),
     ebind (ebind (item openvpn ''local_address'') py_iter) (\<lambda>addrs.
       raise_if (length (filter (is_ipv4 E) addrs) > 1)
         (ConfigError ''Only one IPv4 local-address can be specified'' [])),
     ebind (ebind (item openvpn ''local_address'') py_iter) (\<lambda>addrs.
       raise_if (length (filter (is_ipv6 E) addrs) > 1)
         (ConfigError ''Only one IPv6 local-address can be specified'' [])),
     ebind (item openvpn ''device_type'') (\<lambda>dt.
       if dt = PStr ''tun''
       then raise_if (\<not> has_key ''remote_address'' openvpn)
              (ConfigError ''Must specify "remote-address"'' [])
       else Inr ()),
     (if has_key ''remote_address'' openvpn then verify_site_remote E openvpn else Inr ()),
     ebind (item openvpn ''device_type'') (\<lambda>dt.
       if dt = PStr ''tap'' then verify_site_tap E openvpn else Inr ()),
     raise_if (truthy (dict_search ''encryption.ncp_ciphers'' openvpn))
       (ConfigError ''NCP ciphers can only be used in client or server mode'' [])]\<close>

text \<open>Lines 189 to 273: the branch on the mode.\<close>

definition verify_mode :: "env \<Rightarrow> dict \<Rightarrow> error + unit" where
  \<open>verify_mode E openvpn =
     ebind (item openvpn ''mode'') (\<lambda>mode.
       if mode = PStr ''client'' then verify_client openvpn
       else if mode = PStr ''site-to-site'' then verify_site_to_site E openvpn
       else raise_if (has_key ''local_address'' openvpn \<or> has_key ''remote_address'' openvpn)
              (ConfigError
                 ''Cannot specify "local-address" or "remote-address" in client/server or bridge mode''
                 []))\<close>

subsection \<open>Server mode\<close>

text \<open>Lines 309 to 311: every client's address has to lie in the IPv4 server subnet. The
  clients are looked up under the top-level key \<^verbatim>\<open>client\<close>.\<close>

definition verify_clients_in_subnet :: "dict \<Rightarrow> string \<Rightarrow> int \<times> nat \<Rightarrow> error + unit" where
  \<open>verify_clients_in_subnet openvpn subnet net =
     ebind (py_iter (or_empty (dict_search ''client'' openvpn))) (\<lambda>clients.
       for_each clients (\<lambda>client.
         ebind (py_getitem (PStr client) (PStr ''ip'')) (\<lambda>ip.
           if truthy ip
           then ebind (py_index0 ip) (\<lambda>ip0.
                ebind (IPv4Address ip0) (\<lambda>addr.
                  if \<not> in_network addr net
                  then ebind (py_getitem (PStr client) (PStr ''name'')) (\<lambda>name.
                         Inl (ConfigError
                           ''Client "{client["name"]}" IP {client["ip"][0]} not in server subnet {subnet}''
                           [name, ip0, PStr subnet]))
                  else Inr ()))
           else Inr ())))\<close>

text \<open>Lines 288 to 315.\<close>

definition verify_server_subnet :: "env \<Rightarrow> dict \<Rightarrow> error + unit" where
  \<open>verify_server_subnet E openvpn =
     (let tmp = dict_search ''server.subnet'' openvpn
      in if truthy tmp
         then ebind (py_iter tmp) (\<lambda>subnets.
           let v4_subnets = length (filter (is_ipv4 E) subnets);
               v6_subnets = length (filter (is_ipv6 E) subnets)
           in checks [
             raise_if (v4_subnets > 1)
               (ConfigError ''Cannot specify more than 1 IPv4 server subnet'' []),
             raise_if (v6_subnets > 1)
               (ConfigError ''Cannot specify more than 1 IPv6 server subnet'' []),
             raise_if (v6_subnets > 0 \<and> v4_subnets = 0)
               (ConfigError ''IPv6 server requires an IPv4 server subnet'' []),
             for_each subnets (\<lambda>subnet.
               if is_ipv4 E subnet
               then ebind (IPv4Network subnet) (\<lambda>net.
                    ebind (item openvpn ''device_type'') (\<lambda>dt.
                      if dt = PStr ''tun'' \<and> snd net > 29
                      then Inl (ConfigError
                        ''Server subnets smaller than /29 with device type "tun" are not supported'' [])
                      else if dt = PStr ''tap'' \<and> snd net > 30
                      then Inl (ConfigError
                        ''Server subnets smaller than /30 with device type "tap" are not supported'' [])
                      else verify_clients_in_subnet openvpn subnet net))
               else Inr ())])
         else raise_if (\<not> has_key ''is_bridge_member'' openvpn)
                (ConfigError
                   ''Must specify "server subnet" or add interface to bridge in server mode'' []))\<close>

text \<open>Lines 317 to 320.\<close>

definition verify_server_clients :: "dict \<Rightarrow> error + unit" where
  \<open>verify_server_clients openvpn =
     (let server_client = dict_search ''server.client'' openvpn
      in if has_iter server_client
         then ebind (py_items server_client) (\<lambda>kvs.
           for_each kvs (\<lambda>(client_k, client_v).
             raise_when
               (eor (eand (etruthy (py_get client_v ''ip''))
                          (ebind (ebind (py_getitem client_v (PStr ''ip'')) py_len)
                                 (\<lambda>n. Inr (n > 1))))
                    (eand (etruthy (py_get client_v ''ipv6_ip''))
                          (ebind (ebind (py_getitem client_v (PStr ''ipv6_ip'')) py_len)
                                 (\<lambda>n. Inr (n > 1)))))
               (ConfigError
                  ''Server client "{client_k}": cannot specify more than 1 IPv4 and 1 IPv6 IP''
                  [PStr client_k])))
         else Inr ())\<close>

text \<open>Lines 335 to 340 print a warning for every client address inside the pool. The
  output is not modelled; what remains is what the loop can raise. The pool is summarised
  into at least one network, so the client's address is always parsed.\<close>

definition pool_warnings :: "dict \<Rightarrow> error + unit" where
  \<open>pool_warnings openvpn =
     ebind (py_iter (or_empty (dict_search ''client'' openvpn))) (\<lambda>clients.
       for_each clients (\<lambda>client.
         ebind (py_getitem (PStr client) (PStr ''ip'')) (\<lambda>ip.
           if truthy ip
           then ebind (py_index0 ip) (\<lambda>ip0. ebind (IPv4Address ip0) (\<lambda>_. Inr ()))
           else Inr ())))\<close>

text \<open>Lines 322 to 340. The result is the value bound to \<^verbatim>\<open>v4PoolSize\<close>, or \<open>None\<close> when
  no pool is configured and the variable stays unbound.\<close>

definition verify_client_ip_pool :: "dict \<Rightarrow> error + int option" where
  \<open>verify_client_ip_pool openvpn =
     (if truthy (dict_search ''server.client_ip_pool'' openvpn)
      then
        (let start = dict_search ''server.client_ip_pool.start'' openvpn;
             stop = dict_search ''server.client_ip_pool.stop'' openvpn
         in if \<not> (truthy start \<and> truthy stop)
            then Inl (ConfigError
                        ''Server client-ip-pool requires both start and stop addresses'' [])
            else ebind (IPv4Address start) (\<lambda>v4PoolStart.
                 ebind (IPv4Address stop) (\<lambda>v4PoolStop.
                   if v4PoolStart > v4PoolStop
                   then Inl (ConfigError
                     ''Server client-ip-pool start address {v4PoolStart} is larger than stop address {v4PoolStop}''
                     [start, stop])
                   else (let v4PoolSize = v4PoolStop - v4PoolStart
                         in if v4PoolSize \<ge> 65536
                            then Inl (ConfigError
                              ''Server client-ip-pool is too large [{v4PoolStart} -> {v4PoolStop} = {v4PoolSize}], maximum is 65536 addresses.''
                              [start, stop])
                            else ebind (pool_warnings openvpn) (\<lambda>_. Inr (Some v4PoolSize))))))
      else Inr None)\<close>

text \<open>Lines 342 to 366. Once the prefix length is accepted, \<^verbatim>\<open>IPv6Address(tmp)\<close> is
  called on the text that still holds the slash, which \<^verbatim>\<open>ipaddress\<close> rejects with
  \<^verbatim>\<open>AddressValueError\<close>, a \<^verbatim>\<open>ValueError\<close>: nothing after line 355 runs.\<close>

definition verify_ipv6_pool :: "env \<Rightarrow> dict \<Rightarrow> error + unit" where
  \<open>verify_ipv6_pool E openvpn =
     ebind (py_iter (or_empty (dict_search ''server.subnet'' openvpn))) (\<lambda>subnets.
       for_each subnets (\<lambda>subnet.
         if is_ipv6 E subnet
         then (let tmp = dict_search ''client_ipv6_pool.base'' openvpn
               in if truthy tmp
                  then if \<not> truthy (dict_search ''server.client_ip_pool'' openvpn)
                       then Inl (ConfigError ''IPv6 server pool requires an IPv4 server pool'' [])
                       else (case tmp of
                               PStr s \<Rightarrow>
                                 (case split_on (CHR ''/'') [] s of
                                    _ # p # _ \<Rightarrow>
                                      (case py_int E p of
                                         None \<Rightarrow> Inl ValueError
                                       | Some n \<Rightarrow>
                                           if n \<ge> 112
                                           then Inl (ConfigError
                                                  ''IPv6 server pool must be larger than /112'' [])
                                           else Inl ValueError)
                                  | _ \<Rightarrow> Inl IndexError)
                             | _ \<Rightarrow> Inl AttributeError)
                  else Inr ())
         else Inr ()))\<close>

text \<open>Lines 279 to 366: the checks of server mode that come before the one-time-password
  file is touched.\<close>

definition verify_server :: "env \<Rightarrow> dict \<Rightarrow> error + unit" where
  \<open>verify_server E openvpn = checks [
     ebind (item openvpn ''protocol'') (\<lambda>p.
       raise_if (p = PStr ''tcp-active'')
         (ConfigError ''Protocol "tcp-active" is not valid in server mode'' [])),
     raise_if (has_key ''remote_port'' openvpn)
       (ConfigError ''Cannot specify "remote-port" in server mode'' []),
     raise_if (has_key ''remote_host'' openvpn)
       (ConfigError ''Cannot specify "remote-host" in server mode'' []),
     verify_server_subnet E openvpn,
     verify_server_clients openvpn,
     ebind (verify_client_ip_pool openvpn) (\<lambda>_. Inr ()),
     verify_ipv6_pool E openvpn]\<close>

subsection \<open>The one-time-password file\<close>

text \<open>\<^verbatim>\<open>readlines\<close>: the text cut after every newline.\<close>

fun readlines_acc :: "string \<Rightarrow> string \<Rightarrow> string list" where
  "readlines_acc acc [] = (if acc = [] then [] else [rev acc])"
| "readlines_acc acc (c # cs) =
     (if c = CHR 0x0A then rev (c # acc) # readlines_acc [] cs else readlines_acc (c # acc) cs)"

definition readlines :: "string \<Rightarrow> string list" where
  "readlines text = readlines_acc [] text"

text \<open>\<^verbatim>\<open>re.search('^' + name + ' ', s)\<close> for a name without regular-expression
  metacharacters: \<open>s\<close> begins with the name followed by a space.\<close>

definition re_search_name :: "string \<Rightarrow> string \<Rightarrow> bool" where
  "re_search_name name s = starts_with (name @ '' '') s"

text \<open>Sixteen draws of \<^verbatim>\<open>random.choice(secret_chars)\<close>; \<open>rnd i\<close> is the number the generator
  yields at its \<open>i\<close>-th draw of this run.\<close>

definition totp_secret :: "(nat \<Rightarrow> nat) \<Rightarrow> nat \<Rightarrow> string" where
  "totp_secret rnd k = map (\<lambda>i. secret_chars ! (rnd (k + i) mod 32)) [0 ..< 16]"

text \<open>Lines 377 to 387: what is written to the temporary file, client by client. Line 380
  matches the pattern against the module-level \<^verbatim>\<open>user\<close>, not against the line
  \<^verbatim>\<open>ovpn_user\<close>.\<close>

fun otp_lines :: "(nat \<Rightarrow> nat) \<Rightarrow> nat \<Rightarrow> string list \<Rightarrow> string list \<Rightarrow> string list" where
  "otp_lines rnd k ovpn_users [] = []"
| "otp_lines rnd k ovpn_users (client # clients) =
     (let kept = filter (\<lambda>ovpn_user. re_search_name client user) ovpn_users
      in if kept \<noteq> [] then kept @ otp_lines rnd k ovpn_users clients
         else (client @ '' otp totp:sha1:base32:'' @ totp_secret rnd k @ ''::xxx *'' @ [CHR 0x0A])
              # otp_lines rnd (k + 16) ovpn_users clients)"

text \<open>Lines 370 to 395.\<close>

definition totp_reconcile :: "env \<Rightarrow> (nat \<Rightarrow> nat) \<Rightarrow> dict \<Rightarrow> world \<Rightarrow> (error + unit) \<times> world" where
  "totp_reconcile E rnd openvpn w =
     (case otp_file E openvpn of
        Inl e \<Rightarrow> (Inl e, w)
      | Inr path \<Rightarrow>
          (case (if \<not> is_file w path
                 then (case mkdir_parents otp_path w of
                         Inl e \<Rightarrow> Inl e
                       | Inr w1 \<Rightarrow> Inr (touch path w1))
                 else Inr w) of
             Inl e \<Rightarrow> (Inl e, w)
           | Inr w2 \<Rightarrow>
               (case map_of (files w2) path of
                  None \<Rightarrow> (Inl OSError, w2)
                | Some text \<Rightarrow>
                    (case py_iter (or_empty (dict_search ''server.client'' openvpn)) of
                       Inl e \<Rightarrow> (Inl e, w2)
                     | Inr clients \<Rightarrow>
                         (let ovpn_users = readlines text;
                              fp = concat (otp_lines rnd 0 ovpn_users clients)
                          in (Inr (),
                              chown path user group
                                (write_file path (concat (readlines fp)) w2)))))))"

subsection \<open>Outside server mode\<close>

definition verify_not_server :: "dict \<Rightarrow> error + unit" where
  \<open>verify_not_server openvpn = checks [
     raise_if (truthy (dict_search ''server.reject_unconfigured_clients'' openvpn))
       (ConfigError ''Option reject-unconfigured-clients only supported in server mode'' []),
     raise_if (has_key ''replace_default_route'' openvpn \<and> \<not> has_key ''remote_host'' openvpn)
       (ConfigError ''Cannot set "replace-default-route" without "remote-host"'' [])]\<close>

subsection \<open>Checks common to all modes\<close>

text \<open>Lines 435 to 453: what a configured \<^verbatim>\<open>tls role\<close> asks for.\<close>

definition verify_tls_role :: "dict \<Rightarrow> error + unit" where
  \<open>verify_tls_role openvpn =
     (let tmp = dict_search ''tls.role'' openvpn
      in if truthy tmp
         then checks [
           ebind (item openvpn ''mode'') (\<lambda>mode.
             if mode \<in> set [PStr ''client'', PStr ''server'']
             then raise_if (\<not> truthy (dict_search ''tls.auth_key'' openvpn))
                    (ConfigError ''Cannot specify "tls role" in client-server mode'' [])
             else Inr ()),
           (if tmp = PStr ''active''
            then checks [
              ebind (item openvpn ''protocol'') (\<lambda>p.
                raise_if (p = PStr ''tcp-passive'')
                  (ConfigError ''Cannot specify "tcp-passive" when "tls role" is "active"'' [])),
              raise_if (truthy (dict_search ''tls.dh_params'' openvpn))
                (ConfigError ''Cannot specify "tls dh-params" when "tls role" is "active"'' [])]
            else if tmp = PStr ''passive''
            then checks [
              ebind (item openvpn ''protocol'') (\<lambda>p.
                raise_if (p = PStr ''tcp-active'')
                  (ConfigError ''Cannot specify "tcp-active" when "tls role" is "passive"'' [])),
              raise_if (\<not> truthy (dict_search ''tls.dh_params'' openvpn))
                (ConfigError ''Must specify "tls dh-params" when "tls role" is "passive"'' [])]
            else Inr ())]
         else Inr ())\<close>

text \<open>Lines 431 to 458, the body of \<^verbatim>\<open>if 'tls' in openvpn\<close>. The last entry is the
  condition of a warning; only what it can raise is kept.\<close>

definition verify_tls :: "env \<Rightarrow> dict \<Rightarrow> error + unit" where
  \<open>verify_tls E openvpn =
     ebind (item openvpn ''tls'') (\<lambda>tls. checks [
       ebind (py_iter tls) (\<lambda>keys.
         raise_if (set [''auth_key'', ''crypt_key''] \<subseteq> set keys)
           (ConfigError ''TLS auth and crypt keys are mutually exclusive'' [])),
       verify_tls_role openvpn,
       ebind (eand (py_in (PStr ''certificate'') tls)
                   (ebind (item openvpn ''pki'') (\<lambda>pki.
                    ebind (py_getitem tls (PStr ''certificate'')) (\<lambda>cert.
                      is_ec_private_key E pki cert)))) (\<lambda>b.
         if b then ebind (py_in (PStr ''dh_params'') tls) (\<lambda>_. Inr ()) else Inr ())])\<close>

text \<open>Lines 411 to 478.\<close>

definition verify_common :: "env \<Rightarrow> dict \<Rightarrow> error + unit" where
  \<open>verify_common E openvpn = checks [
     (if has_key ''local_host'' openvpn
      then ebind (item openvpn ''local_host'') (\<lambda>h.
             raise_if (\<not> is_addr_assigned E h)
               (ConfigError ''local-host IP address "{local_host}" not assigned to any interface''
                  [h]))
      else Inr ()),
     ebind (item openvpn ''protocol'') (\<lambda>p.
       if p = PStr ''tcp-active''
       then checks [
         raise_if (has_key ''local_port'' openvpn)
           (ConfigError ''Cannot specify "local-port" with "tcp-active"'' []),
         raise_if (\<not> has_key ''remote_host'' openvpn)
           (ConfigError ''Must specify "remote-host" with "tcp-active"'' [])]
       else Inr ()),
     (if has_key ''shared_secret_key'' openvpn
      then raise_if (dict_search ''encryption.cipher'' openvpn
                       \<in> set [PStr ''aes128gcm'', PStr ''aes192gcm'', PStr ''aes256gcm''])
             (ConfigError ''GCM encryption with shared-secret-key not supported'' [])
      else Inr ()),
     (if has_key ''tls'' openvpn then verify_tls E openvpn else Inr ()),
     verify_pki E openvpn,
     raise_if (truthy (dict_search ''authentication.username'' openvpn)
               \<and> \<not> truthy (dict_search ''authentication.password'' openvpn))
       (ConfigError ''Password for authentication is missing'' []),
     raise_if (truthy (dict_search ''authentication.password'' openvpn)
               \<and> \<not> truthy (dict_search ''authentication.username'' openvpn))
       (ConfigError ''Username for authentication is missing'' []),
     verify_vrf E openvpn]\<close>

subsection \<open>The whole of \<^verbatim>\<open>verify\<close>\<close>

text \<open>Lines 278 to 403: the server checks and the one-time-password file, or the checks
  for the other modes.\<close>

definition verify_server_part :: "env \<Rightarrow> (nat \<Rightarrow> nat) \<Rightarrow> dict \<Rightarrow> world \<Rightarrow> (error + unit) \<times> world" where
  "verify_server_part E rnd openvpn w =
     (case item openvpn ''mode'' of
        Inl e \<Rightarrow> (Inl e, w)
      | Inr mode \<Rightarrow>
          if mode = PStr ''server''
          then (case verify_server E openvpn of
                  Inl e \<Rightarrow> (Inl e, w)
                | Inr _ \<Rightarrow>
                    if truthy (dict_search ''server.2fa.totp'' openvpn)
                    then totp_reconcile E rnd openvpn w
                    else (Inr (), w))
          else (verify_not_server openvpn, w))"

definition verify :: "env \<Rightarrow> (nat \<Rightarrow> nat) \<Rightarrow> dict \<Rightarrow> world \<Rightarrow> (error + unit) \<times> world" where
  \<open>verify E rnd openvpn w =
     (if has_key ''deleted'' openvpn then (verify_bridge_delete E openvpn, w)
      else if \<not> has_key ''mode'' openvpn
      then (Inl (ConfigError ''Must specify OpenVPN operation mode!'' []), w)
      else (case verify_mode E openvpn of
              Inl e \<Rightarrow> (Inl e, w)
            | Inr _ \<Rightarrow>
                (case verify_server_part E rnd openvpn w of
                   (Inl e, w') \<Rightarrow> (Inl e, w')
                 | (Inr _, w') \<Rightarrow> (verify_common E openvpn, w'))))\<close>

section \<open>Artifact generation: \<^verbatim>\<open>generate_pki_files\<close> and \<^verbatim>\<open>generate\<close>\<close>






































section \<open>Lifecycle: \<^verbatim>\<open>apply\<close>\<close>

definition service_unit :: "string \<Rightarrow> string" where
  "service_unit ifname = ''openvpn@'' @ ifname @ ''.service''"

text \<open>Modelled from the spec: \<^verbatim>\<open>vyos.util.call\<close> on \<^verbatim>\<open>systemctl stop\<close> and
  \<^verbatim>\<open>systemctl start\<close>, which the sources at hand do not include. The specification treats
  the process manager as a capability to stop and start a named service instance, stopping
  being idempotent.\<close>

definition systemctl_stop :: "string \<Rightarrow> world \<Rightarrow> world" where
  "systemctl_stop unit w = w\<lparr>services := removeAll unit (services w)\<rparr>"

definition systemctl_start :: "string \<Rightarrow> world \<Rightarrow> world" where
  "systemctl_start unit w = w\<lparr>services := unit # removeAll unit (services w)\<rparr>"

text \<open>\<^verbatim>\<open>glob(prefix + '*')\<close> for a prefix without wildcard characters that does not end in
  a slash: the existing paths that continue the prefix within the same directory.\<close>

definition glob_prefix :: "world \<Rightarrow> string \<Rightarrow> string list" where
  "glob_prefix w pre =
     filter (\<lambda>p. starts_with pre p \<and> CHR ''/'' \<notin> set (drop (length pre) p))
            (map fst (files w) @ dirs w)"

text \<open>Modelled from the spec: the interface object \<^verbatim>\<open>VTunIf\<close> of \<^verbatim>\<open>vyos.ifconfig\<close>, which
  the sources at hand do not include. The specification treats it as creating, updating and
  removing a named network interface: \<^verbatim>\<open>VTunIf(interface).remove()\<close> takes the interface
  away, and \<^verbatim>\<open>VTunIf(**openvpn)\<close> followed by \<^verbatim>\<open>update\<close> brings it into being.\<close>

definition vtun_remove :: "string \<Rightarrow> world \<Rightarrow> world" where
  "vtun_remove ifname w = w\<lparr>netifs := removeAll ifname (netifs w)\<rparr>"

definition vtun_update :: "string \<Rightarrow> world \<Rightarrow> world" where
  "vtun_update ifname w = w\<lparr>netifs := ifname # removeAll ifname (netifs w)\<rparr>"

text \<open>Lines 639 to 661.\<close>

definition apply_openvpn :: "env \<Rightarrow> dict \<Rightarrow> world \<Rightarrow> (error + unit) \<times> world" where
  "apply_openvpn E openvpn w =
     (case item openvpn ''ifname'' of
        Inl e \<Rightarrow> (Inl e, w)
      | Inr interface \<Rightarrow>
          (let ifname = py_str E interface;
               w1 = systemctl_stop (service_unit ifname) w
           in if has_key ''deleted'' openvpn \<or> has_key ''disable'' openvpn
              then (let w2 = fold (\<lambda>cleanup_file w. if is_file w cleanup_file
                                                     then unlink cleanup_file w else w)
                                  (glob_prefix w1 (''/run/openvpn/'' @ ifname @ ''.'')) w1
                    in (Inr (), if interface \<in> set (map PStr (netifs w2))
                                then vtun_remove ifname w2 else w2))
              else (Inr (), vtun_update ifname (systemctl_start (service_unit ifname) w1))))"

section \<open>Example configurations\<close>

text \<open>An environment in which every external check passes, an empty world, and the
  configurations the examples below are run on.\<close>

definition text_of :: "pyval \<Rightarrow> string" where
  "text_of v = (case v of PStr s \<Rightarrow> s | _ \<Rightarrow> [])"

definition example_env :: env where
  "example_env =
     \<lparr>is_ipv4 = (\<lambda>s. CHR ''.'' \<in> set s),
      is_ipv6 = (\<lambda>s. CHR '':'' \<in> set s),
      is_addr_assigned = (\<lambda>_. True),
      verify_vrf = (\<lambda>_. Inr ()),
      verify_bridge_delete = (\<lambda>_. Inr ()),
      key_is_ec = (\<lambda>_. False),
      dh_bit_length = (\<lambda>_. Inr 2048),
      py_int = (\<lambda>_. None),
      py_repr = (\<lambda>_. []),
      wrap_openvpn_key = text_of,
      wrap_certificate = text_of,
      wrap_crl = (\<lambda>s. s),
      wrap_private_key = text_of,
      wrap_dh_parameters = text_of,
      render_template = (\<lambda>template data. template)\<rparr>"

definition empty_world :: world where
  "empty_world = \<lparr>files = [], dirs = [], owners = [], perms = [], services = [], netifs = []\<rparr>"

definition pool_config :: "string \<Rightarrow> string \<Rightarrow> dict" where
  "pool_config start stop =
     [(''ifname'', PStr ''vtun0''), (''mode'', PStr ''server''),
      (''server'', PDict [(''client_ip_pool'',
                           PDict [(''start'', PStr start), (''stop'', PStr stop)])])]"

definition example_pki :: pyval where
  "example_pki =
     PDict [(''ca'', PDict [(''ca1'', PDict [(''certificate'', PStr ''CA'')])]),
            (''certificate'',
               PDict [(''srv'', PDict [(''certificate'', PStr ''CERT''),
                                        (''private'', PDict [(''key'', PStr ''KEY'')])])]),
            (''dh'', PDict [(''dh1'', PDict [(''parameters'', PStr ''DH'')])])]"

text \<open>A server with the subnet 10.8.0.0/24 and one client whose address 192.168.1.5 lies
  outside it; \<open>two_factor\<close> adds \<^verbatim>\<open>2fa totp\<close>, \<open>tls\<close> is the TLS block, if any.\<close>

definition server_config :: "bool \<Rightarrow> pyval option \<Rightarrow> dict" where
  "server_config two_factor tls =
     [(''ifname'', PStr ''vtun0''), (''mode'', PStr ''server''),
      (''protocol'', PStr ''udp''), (''device_type'', PStr ''tun''),
      (''server'',
         PDict ([(''subnet'', PList [''10.8.0.0/24'']),
                 (''client'', PDict [(''alice'', PDict [(''ip'', PList [''192.168.1.5''])])])]
                @ (if two_factor then [(''2fa'', PDict [(''totp'', PDict [(''digits'', PStr ''6'')])])]
                   else [])))]
     @ (case tls of None \<Rightarrow> [] | Some t \<Rightarrow> [(''tls'', t)])
     @ [(''pki'', example_pki), (''auth_user_pass_file'', PStr ''/run/openvpn/vtun0.pw''),
        (''daemon_user'', PStr ''openvpn''), (''daemon_group'', PStr ''openvpn'')]"

definition server_tls :: pyval where
  "server_tls = PDict [(''ca_certificate'', PStr ''ca1''), (''certificate'', PStr ''srv''),
                       (''dh_params'', PStr ''dh1'')]"

text \<open>A site-to-site tunnel over a \<^verbatim>\<open>tun\<close> device with one IPv4 address on each side.\<close>

definition site_config :: "pyval option \<Rightarrow> dict" where
  "site_config tls =
     [(''ifname'', PStr ''vtun1''), (''mode'', PStr ''site-to-site''),
      (''protocol'', PStr ''udp''), (''device_type'', PStr ''tun''),
      (''local_address'', PDict [(''10.255.0.1'', PDict [])]),
      (''remote_address'', PList [''10.255.0.2''])]
     @ (case tls of None \<Rightarrow> [] | Some t \<Rightarrow> [(''tls'', t)])
     @ [(''pki'', example_pki), (''auth_user_pass_file'', PStr ''/run/openvpn/vtun1.pw''),
        (''daemon_user'', PStr ''openvpn''), (''daemon_group'', PStr ''openvpn'')]"

definition role_tls :: pyval where
  "role_tls = PDict [(''ca_certificate'', PStr ''ca1''), (''certificate'', PStr ''srv''),
                     (''role'', PStr ''active'')]"

text \<open>A client with a TLS role and no auth key.\<close>

definition client_config :: dict where
  "client_config =
     [(''ifname'', PStr ''vtun2''), (''mode'', PStr ''client''),
      (''protocol'', PStr ''udp''), (''device_type'', PStr ''tun''),
      (''remote_host'', PList [''192.0.2.1'']), (''tls'', role_tls), (''pki'', example_pki)]"

text \<open>A site-to-site tunnel that is a bridge member and has no local address.\<close>

definition bridge_config :: dict where
  "bridge_config =
     [(''ifname'', PStr ''vtun3''), (''mode'', PStr ''site-to-site''),
      (''protocol'', PStr ''udp''), (''device_type'', PStr ''tap''),
      (''is_bridge_member'', PStr ''br0''), (''shared_secret_key'', PStr ''s1''),
      (''pki'', PDict [(''openvpn'', PDict [(''shared_secret'',
                                              PDict [(''s1'', PDict [(''key'', PStr ''K'')])])])])]"

definition deleted_config :: dict where
  "deleted_config = [(''ifname'', PStr ''vtun0''), (''deleted'', PDict [])]"



text \<open>A world after \<^verbatim>\<open>vtun0\<close> has run: its configuration, its password file and two key
  files in the runtime directory, the service and the interface.\<close>

definition running_world :: world where
  "running_world =
     empty_world\<lparr>files := [(''/run/openvpn/vtun0.conf'', ''conf''),
                             (''/run/openvpn/vtun0.pw'', ''pw''),
                             (''/run/openvpn/vtun0_cert.key'', ''KEY''),
                             (''/run/openvpn/vtun0_shared.key'', ''SECRET'')],
                   dirs := [''/run'', ''/run/openvpn''],
                   services := [''openvpn@vtun0.service''],
                   netifs := [''vtun0'']\<rparr>"

text \<open>The server above with a client pool that holds the one address 10.8.0.10.\<close>

definition single_pool_server :: dict where
  "single_pool_server =
     AList.update ''server''
       (PDict [(''subnet'', PList [''10.8.0.0/24'']),
               (''client_ip_pool'', PDict [(''start'', PStr ''10.8.0.10''),
                                           (''stop'', PStr ''10.8.0.10'')])])
       (server_config False (Some server_tls))"

section \<open>Frames\<close>



text \<open>Two paths of keys of which one continues the other.\<close>

fun related :: "string list \<Rightarrow> string list \<Rightarrow> bool" where
  "related [] q = True"
| "related (a # p) [] = True"
| "related (a # p) (b # q) = (a = b \<and> related p q)"

text \<open>The fields the generator writes into the configuration: \<^verbatim>\<open>tls crl\<close>,
  \<^verbatim>\<open>tls private_key\<close> and \<^verbatim>\<open>server client <name> server_subnet\<close>. A path is touched by
  them when it leads to one of them or into one of them.\<close>

fun client_subnet_path :: "string list \<Rightarrow> bool" where
  "client_subnet_path (a # b # k # d # p) =
     (a = ''server'' \<and> b = ''client'' \<and> d = ''server_subnet'')"
| "client_subnet_path p = related p [''server'', ''client'']"

definition generated_field :: "string list \<Rightarrow> bool" where
  "generated_field p \<longleftrightarrow>
     related p [''tls'', ''crl''] \<or> related p [''tls'', ''private_key''] \<or> client_subnet_path p"

definition same_fields :: "dict \<Rightarrow> dict \<Rightarrow> bool" where
  "same_fields c c' \<longleftrightarrow>
     map fst c' = map fst c
     \<and> (\<forall>p. \<not> generated_field p
            \<longrightarrow> dict_search_args (PDict c') (map PStr p) = dict_search_args (PDict c) (map PStr p))"


section \<open>Properties\<close>

subsection \<open>Blocks and their first error\<close>

lemma checks_Inr_iff: "checks ms = Inr u \<longleftrightarrow> (\<forall>m \<in> set ms. m = Inr ())"
  by (induction ms rule: checks.induct) auto

lemma checks_Inl_member: "m \<in> set ms \<Longrightarrow> m = Inl e \<Longrightarrow> \<exists>e'. checks ms = Inl e'"
  by (induction ms rule: checks.induct) auto

lemma ebind_Inl [simp]: "ebind (Inl e) f = Inl e"
  by (simp add: ebind_def)

lemma ebind_Inr [simp]: "ebind (Inr x) f = f x"
  by (simp add: ebind_def)

lemma raise_if_simps [simp]: "raise_if True e = Inl e" "raise_if False e = Inr ()"
  by (simp_all add: raise_if_def)

lemma path_pool [simp]:
  "dict_search ''server.client_ip_pool'' c =
     dict_search_args (PDict c) [PStr ''server'', PStr ''client_ip_pool'']"
  "dict_search ''server.client_ip_pool.start'' c =
     dict_search_args (PDict c) [PStr ''server'', PStr ''client_ip_pool'', PStr ''start'']"
  "dict_search ''server.client_ip_pool.stop'' c =
     dict_search_args (PDict c) [PStr ''server'', PStr ''client_ip_pool'', PStr ''stop'']"
  "dict_search ''client'' c = dict_search_args (PDict c) [PStr ''client'']"
  by (simp_all add: dict_search_def)

lemma pool_warnings_no_clients:
  "\<not> truthy (dict_search_args (PDict c) [PStr ''client'']) \<Longrightarrow> pool_warnings c = Inr ()"
  by (simp add: pool_warnings_def or_empty_def for_each_def)

subsection \<open>The IPv4 client pool\<close>



text \<open>
  C10. A pool whose start and stop parse to the same address passes the pool checks, since
  only a start strictly above the stop is refused; the size the code computes is the
  difference of the two addresses, one less than the number of addresses from start to stop,
  hence 0 for a pool of one address.
\<close>

theorem client_ip_pool_size:
  assumes "truthy (dict_search ''server.client_ip_pool'' c)"
    and "truthy (dict_search ''server.client_ip_pool.start'' c)"
    and "truthy (dict_search ''server.client_ip_pool.stop'' c)"
    and "IPv4Address (dict_search ''server.client_ip_pool.start'' c) = Inr a"
    and "IPv4Address (dict_search ''server.client_ip_pool.stop'' c) = Inr b"
    and "b - a < 65536"
    and "\<not> truthy (dict_search ''client'' c)"
  shows "(a \<le> b \<longrightarrow> verify_client_ip_pool c = Inr (Some (b - a))
                   \<and> b - a + 1 = int (length [a..b]))
       \<and> (a = b \<longrightarrow> verify_client_ip_pool c = Inr (Some 0))
       \<and> (b < a \<longleftrightarrow> (\<exists>e. verify_client_ip_pool c = Inl e))"
  using assms
  by (auto simp add: verify_client_ip_pool_def pool_warnings_no_clients Let_def)

theorem client_ip_pool_size_witness:
  "verify_client_ip_pool (pool_config ''10.0.0.10'' ''10.0.0.10'') = Inr (Some 0)
   \<and> verify_client_ip_pool single_pool_server = Inr (Some 0)
   \<and> verify example_env (\<lambda>i. i) single_pool_server empty_world = (Inr (), empty_world)"
proof -
  have full: "verify_client_ip_pool single_pool_server = Inr (Some 0)
      \<and> verify example_env (\<lambda>i. i) single_pool_server empty_world = (Inr (), empty_world)"
    by code_simp
  let ?c = "pool_config ''10.0.0.10'' ''10.0.0.10''"
  have ip: "ip_int_from_string ''10.0.0.10'' = Some 167772170"
    by (simp add: ip_int_from_string_def parse_octet_def decimal_def digit_of_def)
  have "truthy (dict_search ''server.client_ip_pool'' ?c)"
    and "truthy (dict_search ''server.client_ip_pool.start'' ?c)"
    and "truthy (dict_search ''server.client_ip_pool.stop'' ?c)"
    and "IPv4Address (dict_search ''server.client_ip_pool.start'' ?c) = Inr 167772170"
    and "IPv4Address (dict_search ''server.client_ip_pool.stop'' ?c) = Inr 167772170"
    and "(167772170::int) - 167772170 < 65536"
    and "\<not> truthy (dict_search ''client'' ?c)"
    by (simp_all add: pool_config_def ip)
  from client_ip_pool_size [OF this] full show ?thesis by simp
qed



subsection \<open>Site-to-site tunnels that are bridge members\<close>

text \<open>
  C4. A site-to-site configuration without a local address that is a bridge member passes
  the check of line 209, and line 212 then reads \<^verbatim>\<open>openvpn['local_address']\<close>: validation
  ends in \<^verbatim>\<open>KeyError\<close>, not in a configuration error, and nothing after it is checked.
\<close>

theorem site_bridge_member_key_error:
  assumes "\<not> has_key ''deleted'' c"
    and "map_of c ''mode'' = Some (PStr ''site-to-site'')"
    and "\<not> has_key ''local_address'' c"
    and "has_key ''is_bridge_member'' c"
  shows "verify E rnd c w = (Inl (KeyError ''local_address''), w)"
proof -
  have "verify_site_to_site E c = Inl (KeyError ''local_address'')"
    using assms by (simp add: verify_site_to_site_def has_key_def item_def)
  then have "verify_mode E c = Inl (KeyError ''local_address'')"
    using assms by (simp add: verify_mode_def item_def)
  then show ?thesis
    using assms by (simp add: verify_def has_key_def)
qed

theorem site_bridge_member_key_error_witness:
  "verify example_env (\<lambda>i. i) bridge_config empty_world
     = (Inl (KeyError ''local_address''), empty_world)"
proof -
  have "\<not> has_key ''deleted'' bridge_config"
    and "map_of bridge_config ''mode'' = Some (PStr ''site-to-site'')"
    and "\<not> has_key ''local_address'' bridge_config"
    and "has_key ''is_bridge_member'' bridge_config"
    by (simp_all add: bridge_config_def has_key_def)
  from site_bridge_member_key_error [OF this] show ?thesis .
qed

subsection \<open>Client addresses and the server subnet\<close>

text \<open>
  C3. The loop of lines 309 to 311 reads the clients from the top-level key \<^verbatim>\<open>client\<close>,
  while the configuration keeps them under \<^verbatim>\<open>server client\<close>: a server with the subnet
  10.8.0.0/24 and a client at 192.168.1.5, an address outside that subnet, is accepted.
\<close>

theorem client_outside_subnet_accepted:
  "IPv4Network ''10.8.0.0/24'' = Inr (168296448, 24)
   \<and> IPv4Address (PStr ''192.168.1.5'') = Inr 3232235781
   \<and> \<not> in_network 3232235781 (168296448, 24)
   \<and> dict_search ''server.client'' (server_config False (Some server_tls))
       = PDict [(''alice'', PDict [(''ip'', PList [''192.168.1.5''])])]
   \<and> dict_search ''client'' (server_config False (Some server_tls)) = PNone
   \<and> verify example_env (\<lambda>i. i) (server_config False (Some server_tls)) empty_world
       = (Inr (), empty_world)"
  by code_simp

subsection \<open>The one-time-password file\<close>





subsection \<open>Cleaning up a deleted interface\<close>

text \<open>
  C9. For a deleted interface the applier stops the service, removes the files matching
  \<^verbatim>\<open>/run/openvpn/vtun0.*\<close> and tears the interface down, and it starts nothing. The key
  files \<^verbatim>\<open>vtun0_cert.key\<close> and \<^verbatim>\<open>vtun0_shared.key\<close> do not match the pattern and stay.
\<close>

theorem apply_deleted_leaves_keys:
  "apply_openvpn example_env deleted_config running_world
     = (Inr (),
        running_world\<lparr>files := [(''/run/openvpn/vtun0_cert.key'', ''KEY''),
                                 (''/run/openvpn/vtun0_shared.key'', ''SECRET'')],
                       services := [], netifs := []\<rparr>)"
  by code_simp

subsection \<open>What an accepted configuration has passed\<close>

lemma verify_accepted_common:
  assumes "\<not> has_key ''deleted'' c" and "verify E rnd c w = (Inr u, w')"
  shows "verify_common E c = Inr ()"
  using assms
  by (auto simp add: verify_def split: if_splits sum.splits prod.splits)

lemma verify_common_pki: "verify_common E c = Inr () \<Longrightarrow> verify_pki E c = Inr ()"
  by (simp add: verify_common_def checks_Inr_iff)

lemma verify_common_tls:
  "verify_common E c = Inr () \<Longrightarrow> has_key ''tls'' c \<Longrightarrow> verify_tls E c = Inr ()"
  by (simp add: verify_common_def checks_Inr_iff)

lemma verify_rejects_or_accepts:
  "(\<exists>e w'. verify E rnd c w = (Inl e, w')) \<or> (\<exists>w'. verify E rnd c w = (Inr (), w'))"
  by (cases "verify E rnd c w"; cases "fst (verify E rnd c w)") auto

lemma pki_rejects_verify_rejects:
  assumes "\<not> has_key ''deleted'' c" and "verify_pki E c = Inl e"
  shows "\<exists>e' w'. verify E rnd c w = (Inl e', w')"
proof (rule ccontr)
  assume "\<not> (\<exists>e' w'. verify E rnd c w = (Inl e', w'))"
  with verify_rejects_or_accepts [of E rnd c w]
  obtain w' where "verify E rnd c w = (Inr (), w')" by blast
  with assms(1) have "verify_common E c = Inr ()" by (rule verify_accepted_common)
  then have "verify_pki E c = Inr ()" by (rule verify_common_pki)
  with assms(2) show False by simp
qed

subsection \<open>Shared secret or TLS\<close>

lemma verify_pki_exclusive_msg:
  assumes "truthy (dict_search_args (PDict c) [PStr ''shared_secret_key''])
           = truthy (dict_search_args (PDict c) [PStr ''tls''])"
    and "map_of c ''pki'' = Some p" and "map_of c ''ifname'' = Some i"
    and "map_of c ''mode'' = Some m"
  shows \<open>verify_pki E c
          = Inl (ConfigError ''Must specify only one of "shared-secret-key" and "tls"'' [])\<close>
  using assms by (simp add: verify_pki_def item_def Let_def del: dict_search_args.simps)

lemma verify_pki_exclusive:
  assumes "truthy (dict_search_args (PDict c) [PStr ''shared_secret_key''])
           = truthy (dict_search_args (PDict c) [PStr ''tls''])"
  shows "\<exists>e. verify_pki E c = Inl e"
proof (cases "map_of c ''pki''")
  case None
  then show ?thesis by (simp add: verify_pki_def item_def)
next
  case p: (Some p)
  show ?thesis
  proof (cases "map_of c ''ifname''")
    case None
    with p show ?thesis by (simp add: verify_pki_def item_def)
  next
    case i: (Some i)
    show ?thesis
    proof (cases "map_of c ''mode''")
      case None
      with p i show ?thesis by (simp add: verify_pki_def item_def)
    next
      case (Some m)
      with verify_pki_exclusive_msg [OF assms p i] show ?thesis by blast
    qed
  qed
qed

lemma verify_pki_needs_tls:
  assumes "\<not> truthy (dict_search_args (PDict c) [PStr ''tls''])"
    and "map_of c ''mode'' = Some (PStr ''server'') \<or> map_of c ''mode'' = Some (PStr ''client'')"
  shows "\<exists>e. verify_pki E c = Inl e"
proof (cases "map_of c ''pki''")
  case None
  then show ?thesis by (simp add: verify_pki_def item_def)
next
  case p: (Some p)
  show ?thesis
  proof (cases "map_of c ''ifname''")
    case None
    with p show ?thesis by (simp add: verify_pki_def item_def)
  next
    case i: (Some i)
    show ?thesis
      using assms p i
      by (cases "truthy (dict_search_args (PDict c) [PStr ''shared_secret_key''])")
         (auto simp add: verify_pki_def item_def Let_def simp del: dict_search_args.simps)
  qed
qed

text \<open>
  C7, as the code has it. A configuration with both a shared-secret key and a TLS block, or
  with neither, is refused in every mode, site-to-site included: where \<^verbatim>\<open>verify_pki\<close> finds
  the keys it reads first, it raises the error of line 115. A client or server without a TLS
  block is refused as well. In both cases validation as a whole does not accept.
\<close>

theorem authentication_exactly_one:
  assumes "\<not> has_key ''deleted'' c"
  shows \<open>(truthy (dict_search_args (PDict c) [PStr ''shared_secret_key''])
            = truthy (dict_search_args (PDict c) [PStr ''tls''])
          \<longrightarrow> (\<exists>e w'. verify E rnd c w = (Inl e, w'))
              \<and> (has_key ''pki'' c \<and> has_key ''ifname'' c \<and> has_key ''mode'' c
                 \<longrightarrow> verify_pki E c
                      = Inl (ConfigError ''Must specify only one of "shared-secret-key" and "tls"'' [])))
       \<and> (\<not> truthy (dict_search_args (PDict c) [PStr ''tls''])
          \<and> (map_of c ''mode'' = Some (PStr ''server'') \<or> map_of c ''mode'' = Some (PStr ''client''))
          \<longrightarrow> (\<exists>e w'. verify E rnd c w = (Inl e, w')))\<close>
proof (intro conjI impI)
  assume both: "truthy (dict_search_args (PDict c) [PStr ''shared_secret_key''])
                = truthy (dict_search_args (PDict c) [PStr ''tls''])"
  from verify_pki_exclusive [OF both, of E] obtain e where "verify_pki E c = Inl e"
    by blast
  with assms show "\<exists>e w'. verify E rnd c w = (Inl e, w')"
    by (rule pki_rejects_verify_rejects)
  assume "has_key ''pki'' c \<and> has_key ''ifname'' c \<and> has_key ''mode'' c"
  then obtain p i m where "map_of c ''pki'' = Some p" and "map_of c ''ifname'' = Some i"
    and "map_of c ''mode'' = Some m"
    by (auto simp add: has_key_def)
  from verify_pki_exclusive_msg [OF both this]
  show \<open>verify_pki E c
        = Inl (ConfigError ''Must specify only one of "shared-secret-key" and "tls"'' [])\<close> .
next
  assume no_tls: "\<not> truthy (dict_search_args (PDict c) [PStr ''tls''])
      \<and> (map_of c ''mode'' = Some (PStr ''server'') \<or> map_of c ''mode'' = Some (PStr ''client''))"
  then obtain e where "verify_pki E c = Inl e"
    using verify_pki_needs_tls [of c E] by blast
  with assms show "\<exists>e w'. verify E rnd c w = (Inl e, w')"
    by (rule pki_rejects_verify_rejects)
qed

theorem authentication_exactly_one_witness:
  \<open>verify_pki example_env (site_config None)
     = Inl (ConfigError ''Must specify only one of "shared-secret-key" and "tls"'' [])
   \<and> (\<exists>e w'. verify example_env (\<lambda>i. i) (site_config None) empty_world = (Inl e, w'))\<close>
proof -
  have nd: "\<not> has_key ''deleted'' (site_config None)"
    by (simp add: site_config_def has_key_def)
  have both: "truthy (dict_search_args (PDict (site_config None)) [PStr ''shared_secret_key''])
              = truthy (dict_search_args (PDict (site_config None)) [PStr ''tls''])"
    by (simp add: site_config_def)
  have keys: "has_key ''pki'' (site_config None) \<and> has_key ''ifname'' (site_config None)
              \<and> has_key ''mode'' (site_config None)"
    by (simp add: site_config_def has_key_def)
  from authentication_exactly_one [OF nd, of example_env "\<lambda>i. i" empty_world] both keys
  show ?thesis by blast
qed

text \<open>
  C7 as stated fails: the site-to-site tunnel \<open>site_config\<close> is accepted with a TLS block,
  and the same tunnel with neither a shared-secret key nor a TLS block is refused.
\<close>

theorem site_without_authentication_refused:
  \<open>verify example_env (\<lambda>i. i) (site_config (Some server_tls)) empty_world
     = (Inr (), empty_world)
   \<and> verify example_env (\<lambda>i. i) (site_config None) empty_world
     = (Inl (ConfigError ''Must specify only one of "shared-secret-key" and "tls"'' []),
        empty_world)\<close>
  by code_simp

subsection \<open>The TLS role\<close>

lemma path_tls [simp]:
  "dict_search ''tls.role'' c = dict_search_args (PDict c) [PStr ''tls'', PStr ''role'']"
  "dict_search ''tls.auth_key'' c = dict_search_args (PDict c) [PStr ''tls'', PStr ''auth_key'']"
  "dict_search ''tls.dh_params'' c = dict_search_args (PDict c) [PStr ''tls'', PStr ''dh_params'']"
  by (simp_all add: dict_search_def)

lemma truthy_under_tls:
  "truthy (dict_search_args (PDict c) [PStr ''tls'', PStr k]) \<Longrightarrow> has_key ''tls'' c"
  by (auto simp add: has_key_def split: option.splits)

lemma tls_rejects_verify_rejects:
  assumes "\<not> has_key ''deleted'' c" and "has_key ''tls'' c" and "verify_tls E c = Inl e"
  shows "\<exists>e' w'. verify E rnd c w = (Inl e', w')"
proof (rule ccontr)
  assume "\<not> (\<exists>e' w'. verify E rnd c w = (Inl e', w'))"
  with verify_rejects_or_accepts [of E rnd c w]
  obtain w' where "verify E rnd c w = (Inr (), w')" by blast
  with assms(1) have "verify_common E c = Inr ()" by (rule verify_accepted_common)
  then have "verify_tls E c = Inr ()" using assms(2) by (rule verify_common_tls)
  with assms(3) show False by simp
qed

lemma tls_role_rejects_tls:
  assumes "verify_tls_role c = Inl e" and "has_key ''tls'' c"
  shows "\<exists>e'. verify_tls E c = Inl e'"
proof -
  from assms(2) obtain t where t: "map_of c ''tls'' = Some t"
    by (auto simp add: has_key_def)
  show ?thesis
    unfolding verify_tls_def item_def t
    by (simp, rule checks_Inl_member [where m = "verify_tls_role c" and e = e])
       (simp_all add: assms(1))
qed

text \<open>
  C6, as the code has it. With a TLS role configured, it is in client and in server mode
  that validation asks for an auth key and refuses with the error of line 439 when there is
  none; with an auth key, or in any other mode, that error is not raised.
\<close>

theorem tls_role_needs_auth_key:
  assumes "\<not> has_key ''deleted'' c" and "truthy (dict_search ''tls.role'' c)"
  shows \<open>((map_of c ''mode'' = Some (PStr ''client'') \<or> map_of c ''mode'' = Some (PStr ''server''))
          \<and> \<not> truthy (dict_search ''tls.auth_key'' c)
          \<longrightarrow> verify_tls_role c
                = Inl (ConfigError ''Cannot specify "tls role" in client-server mode'' [])
              \<and> (\<exists>e w'. verify E rnd c w = (Inl e, w')))
       \<and> (truthy (dict_search ''tls.auth_key'' c)
          \<longrightarrow> verify_tls_role c
                \<noteq> Inl (ConfigError ''Cannot specify "tls role" in client-server mode'' []))
       \<and> (map_of c ''mode'' \<noteq> Some (PStr ''client'') \<and> map_of c ''mode'' \<noteq> Some (PStr ''server'')
          \<longrightarrow> verify_tls_role c
                \<noteq> Inl (ConfigError ''Cannot specify "tls role" in client-server mode'' []))\<close>
proof (intro conjI impI)
  assume h: "(map_of c ''mode'' = Some (PStr ''client'') \<or> map_of c ''mode'' = Some (PStr ''server''))
             \<and> \<not> truthy (dict_search ''tls.auth_key'' c)"
  with assms(2)
  show r: \<open>verify_tls_role c
           = Inl (ConfigError ''Cannot specify "tls role" in client-server mode'' [])\<close>
    by (auto simp add: verify_tls_role_def item_def Let_def simp del: dict_search_args.simps)
  from assms(2) have tls: "has_key ''tls'' c"
    by (simp add: truthy_under_tls del: dict_search_args.simps)
  from tls_role_rejects_tls [OF r tls, of E] obtain e where "verify_tls E c = Inl e" by blast
  with assms(1) tls show "\<exists>e w'. verify E rnd c w = (Inl e, w')"
    by (rule tls_rejects_verify_rejects)
next
  assume "truthy (dict_search ''tls.auth_key'' c)"
  with assms(2)
  show \<open>verify_tls_role c
        \<noteq> Inl (ConfigError ''Cannot specify "tls role" in client-server mode'' [])\<close>
    by (cases "map_of c ''mode''"; cases "map_of c ''protocol''")
       (auto simp add: verify_tls_role_def item_def Let_def raise_if_def
             simp del: dict_search_args.simps)
next
  assume "map_of c ''mode'' \<noteq> Some (PStr ''client'') \<and> map_of c ''mode'' \<noteq> Some (PStr ''server'')"
  with assms(2)
  show \<open>verify_tls_role c
        \<noteq> Inl (ConfigError ''Cannot specify "tls role" in client-server mode'' [])\<close>
    by (cases "map_of c ''mode''"; cases "map_of c ''protocol''")
       (auto simp add: verify_tls_role_def item_def Let_def raise_if_def
             simp del: dict_search_args.simps)
qed

theorem tls_role_needs_auth_key_witness:
  \<open>verify_tls_role client_config
     = Inl (ConfigError ''Cannot specify "tls role" in client-server mode'' [])
   \<and> (\<exists>e w'. verify example_env (\<lambda>i. i) client_config empty_world = (Inl e, w'))\<close>
proof -
  have nd: "\<not> has_key ''deleted'' client_config"
    by (simp add: client_config_def has_key_def)
  have role: "truthy (dict_search ''tls.role'' client_config)"
    by (simp add: client_config_def role_tls_def)
  have h: "(map_of client_config ''mode'' = Some (PStr ''client'')
            \<or> map_of client_config ''mode'' = Some (PStr ''server''))
           \<and> \<not> truthy (dict_search ''tls.auth_key'' client_config)"
    by (simp add: client_config_def role_tls_def)
  from tls_role_needs_auth_key [OF nd role, of example_env "\<lambda>i. i" empty_world] h
  show ?thesis by blast
qed

text \<open>
  C6 as stated fails in both directions: a site-to-site tunnel with a TLS role and no auth
  key is accepted, and a client with a TLS role and no auth key is refused for the role.
\<close>

theorem site_role_without_auth_key_accepted:
  \<open>dict_search ''tls.role'' (site_config (Some role_tls)) = PStr ''active''
   \<and> dict_search ''tls.auth_key'' (site_config (Some role_tls)) = PNone
   \<and> verify example_env (\<lambda>i. i) (site_config (Some role_tls)) empty_world
       = (Inr (), empty_world)
   \<and> verify example_env (\<lambda>i. i) client_config empty_world
       = (Inl (ConfigError ''Cannot specify "tls role" in client-server mode'' []), empty_world)\<close>
  by code_simp

subsection \<open>What validation changes in the world\<close>













subsection \<open>What generation changes in the configuration\<close>

lemma related_refl [simp]: "related p p"
  by (induction p) auto

lemma related_Nil2 [simp]: "related p []"
  by (cases p) auto



lemma same_fields_refl [simp]: "same_fields c c"
  by (simp add: same_fields_def)




subsubsection \<open>Steps\<close>


































end
